theory Spec2Isabelle
  imports Main "HOL-Library.Sublist" "HOL-Library.List_Lexorder" "HOL-Library.Char_ord"
begin

section \<open>Errors\<close>

text \<open>
  A Go \<^verbatim>\<open>error\<close> value is identified with its message (\<^verbatim>\<open>err.Error()\<close>, which is
  also what \<^verbatim>\<open>%v\<close> prints); the nil error is \<open>None\<close>.
\<close>

type_synonym error = string

section \<open>The port-forward command\<close>

subsection \<open>errgroup.Group\<close>

text \<open>
  \<^verbatim>\<open>golang.org/x/sync/errgroup\<close> is a library, modelled by its state: the counter of
  its WaitGroup and the error stored under its \<^verbatim>\<open>sync.Once\<close>. \<^verbatim>\<open>Go\<close> adds one to the
  counter and starts the goroutine; when the function of a goroutine returns \<open>r\<close>, the
  first non-nil \<open>r\<close> is stored and the counter is decremented (\<open>task_returns\<close>);
  \<^verbatim>\<open>Wait\<close> blocks while the counter is not zero (\<open>None\<close>: it has not returned) and
  then returns the stored error.
\<close>

record Group =
  wg :: int
  err :: "error option"

definition zero_Group :: Group where
  "zero_Group = \<lparr>wg = 0, err = None\<rparr>"

definition Go :: "Group \<Rightarrow> Group" where
  "Go g = g\<lparr>wg := wg g + 1\<rparr>"

definition task_returns :: "Group \<Rightarrow> error option \<Rightarrow> Group" where
  "task_returns g r =
     g\<lparr>wg := wg g - 1,
       err := (case err g of Some e \<Rightarrow> Some e | None \<Rightarrow> r)\<rparr>"

definition Wait :: "Group \<Rightarrow> error option option" where
  "Wait g = (if wg g = 0 then Some (err g) else None)"

subsection \<open>The three forward tasks\<close>

text \<open>
  Each task feeds a script to \<^verbatim>\<open>sh\<close> through \<^verbatim>\<open>cmdutil.RunIO\<close>. The scripts and the
  processes are outside the model; what \<^verbatim>\<open>RunIO\<close> returns in each task is an input.
\<close>

datatype task = Pachd | DashUI | DashWS

record exits =
  pachd_exit :: "error option"
  ui_exit :: "error option"
  ws_exit :: "error option"

definition UI_not_enabled :: error where
  "UI_not_enabled = ''UI not enabled, deploy with --dashboard''"

text \<open>The first closure: \<^verbatim>\<open>return cmdutil.RunIO(...)\<close>.\<close>

definition pachd_forward :: "error option \<Rightarrow> error option" where
  "pachd_forward r = r"

text \<open>The second closure: an error of \<^verbatim>\<open>RunIO\<close> is replaced by a fixed one, which is returned.\<close>

definition ui_forward :: "error option \<Rightarrow> error option" where
  "ui_forward r = (case r of Some e \<Rightarrow> Some UI_not_enabled | None \<Rightarrow> None)"

text \<open>The third closure: the result of \<^verbatim>\<open>RunIO\<close> is dropped, \<^verbatim>\<open>return nil\<close>.\<close>

definition ws_forward :: "error option \<Rightarrow> error option" where
  "ws_forward r = None"

fun task_result :: "exits \<Rightarrow> task \<Rightarrow> error option" where
  "task_result x Pachd = pachd_forward (pachd_exit x)"
| "task_result x DashUI = ui_forward (ui_exit x)"
| "task_result x DashWS = ws_forward (ws_exit x)"

subsection \<open>The command\<close>

text \<open>
  The command starts the three tasks and calls \<^verbatim>\<open>eg.Wait()\<close>. The goroutines finish in
  an order the program does not control: \<open>fin\<close> lists the tasks that have returned so
  far, in the order they returned. \<open>portForward x fin\<close> is what the command has returned
  at that moment: \<open>None\<close> while it is blocked in \<^verbatim>\<open>Wait\<close>, \<open>Some r\<close> once it returned
  \<open>r\<close>.
  The banner printed before the wait does not depend on the tasks and is left out. The
  counter never goes below zero on a list that names each started task at most once.
\<close>

definition launched :: Group where
  "launched = Go (Go (Go zero_Group))"

definition finish_all :: "exits \<Rightarrow> Group \<Rightarrow> task list \<Rightarrow> Group" where
  "finish_all x g fin = foldl (\<lambda>g t. task_returns g (task_result x t)) g fin"

definition portForward :: "exits \<Rightarrow> task list \<Rightarrow> error option option" where
  "portForward x fin = Wait (finish_all x launched fin)"

text \<open>A schedule in which every task returns, once.\<close>

definition complete :: "task list \<Rightarrow> bool" where
  "complete fin = (distinct fin \<and> set fin = {Pachd, DashUI, DashWS})"

text \<open>\<open>a\<close> returned before \<open>b\<close> did.\<close>

definition returned_before :: "task \<Rightarrow> task \<Rightarrow> task list \<Rightarrow> bool" where
  "returned_before a b fin = (a \<in> set (takeWhile (\<lambda>t. t \<noteq> b) fin))"

text \<open>The first non-nil result of a list of results, in order (used to state properties).\<close>

fun first_error :: "error option list \<Rightarrow> error option" where
  "first_error [] = None"
| "first_error (r # rs) = (case r of Some e \<Rightarrow> Some e | None \<Rightarrow> first_error rs)"

section \<open>Effects\<close>

text \<open>
  What a command does to the outside world, in order: each call that reaches a
  collaborator, a file or the terminal becomes an entry of a log.
\<close>

datatype effect =
    Dialed string             \<comment> \<open>\<^verbatim>\<open>getVersionAPIClient(address)\<close>\<close>
  | GotVersion                \<comment> \<open>\<^verbatim>\<open>versionClient.GetVersion(ctx, ...)\<close>, one second timeout\<close>
  | CreatedTemp string        \<comment> \<open>\<^verbatim>\<open>ioutil.TempFile("", "")\<close> made the file of that name\<close>
  | Wrote string string       \<comment> \<open>file name, bytes written by the encoder\<close>
  | Closed string
  | Ran "string list"         \<comment> \<open>\<^verbatim>\<open>exec.Command(...).CombinedOutput()\<close>\<close>
  | Printed string            \<comment> \<open>standard output\<close>
  | Removed string            \<comment> \<open>the deferred \<^verbatim>\<open>os.Remove\<close>\<close>
  | ReadLine string           \<comment> \<open>bytes taken from standard input by \<^verbatim>\<open>ReadBytes\<close>\<close>
  | DeletedAll                \<comment> \<open>\<^verbatim>\<open>client.DeleteAll()\<close>\<close>

definition newline :: char where
  "newline = CHR 0x0A"

section \<open>Versions\<close>

text \<open>
  \<^verbatim>\<open>versionpb.Version\<close>; its numeric fields are unsigned, \<open>nat\<close> here.
\<close>

record Version =
  Major :: nat
  Minor :: nat
  Micro :: nat
  Additional :: string

text \<open>\<^verbatim>\<open>%d\<close> of an unsigned number.\<close>

definition digit :: "nat \<Rightarrow> char" where
  "digit d = ''0123456789'' ! d"

fun decimal :: "nat \<Rightarrow> string" where
  "decimal n = (if n < 10 then [digit n] else decimal (n div 10) @ [digit (n mod 10)])"

declare decimal.simps [simp del]

text \<open>
  Modelled from the spec: the package \<^verbatim>\<open>src/client/version\<close> is not among the sources.
  \<^verbatim>\<open>PrettyPrintVersionNoAdditional\<close> formats a version as "major.minor.micro only,
  qualifiers stripped".
\<close>

definition PrettyPrintVersionNoAdditional :: "Version \<Rightarrow> string" where
  "PrettyPrintVersionNoAdditional v =
     decimal (Major v) @ ''.'' @ decimal (Minor v) @ ''.'' @ decimal (Micro v)"

text \<open>
  Modelled from the spec: the package \<^verbatim>\<open>src/client/version\<close> is not among the sources.
  \<^verbatim>\<open>PrettyPrintVersion\<close> is the display form, in which the additional qualifier is
  "retained for display".
\<close>

definition PrettyPrintVersion :: "Version \<Rightarrow> string" where
  "PrettyPrintVersion v = PrettyPrintVersionNoAdditional v @ Additional v"

section \<open>The migrate command\<close>

subsection \<open>The job description\<close>

text \<open>
  The Kubernetes types \<^verbatim>\<open>batch.Job\<close>, \<^verbatim>\<open>api.ObjectMeta\<close>, ... with the fields the command
  sets; every other field keeps its zero value and is left out.
\<close>

record TypeMeta =
  Kind :: string
  APIVersion :: string

record ObjectMeta =
  Name :: string
  Labels :: "string \<rightharpoonup> string"

record Container =
  Container_Name :: string
  Image :: string
  Command :: "string list"

record PodSpec =
  Containers :: "Container list"
  RestartPolicy :: string

record PodTemplateSpec =
  PodTemplate_Spec :: PodSpec

record JobSpec =
  Template :: PodTemplateSpec

record Job =
  Job_TypeMeta :: TypeMeta
  Job_ObjectMeta :: ObjectMeta
  Job_Spec :: JobSpec

text \<open>The value of the local variable \<^verbatim>\<open>jobSpec\<close>, from the own version and the resolved pair.\<close>

definition jobSpec :: "Version \<Rightarrow> string \<Rightarrow> string \<Rightarrow> Job" where
  "jobSpec own f t =
     \<lparr>Job_TypeMeta = \<lparr>Kind = ''Job'', APIVersion = ''batch/v1''\<rparr>,
      Job_ObjectMeta =
        \<lparr>Name = ''pach-migration'',
         Labels = [''suite'' \<mapsto> ''pachyderm'']\<rparr>,
      Job_Spec =
        \<lparr>Template =
          \<lparr>PodTemplate_Spec =
            \<lparr>Containers =
               [\<lparr>Container_Name = ''migration'',
                 Image = ''pachyderm/pachd:'' @ PrettyPrintVersion own,
                 Command = [''/pachd'', ''--migrate='' @ f @ ''-'' @ t]\<rparr>],
             RestartPolicy = ''OnFailure''\<rparr>\<rparr>\<rparr>\<rparr>"

text \<open>\<^verbatim>\<open>codec.JsonHandle\<close>, with the two options the command sets.\<close>

record JsonHandle =
  Canonical :: bool
  Indent :: int

definition jsonEncoderHandle :: JsonHandle where
  "jsonEncoderHandle = \<lparr>Canonical = True, Indent = 2\<rparr>"

subsection \<open>The encoder\<close>

text \<open>
  The codec library (\<^verbatim>\<open>github.com/ugorji/go/codec\<close>) and the encoding methods of the
  Kubernetes types are not part of the repository. The encoder is modelled from what the
  library documents for a JSON handle and its two options: a string is written between
  double quotes; a slice is an array; a struct is an object with its fields in the order
  of their declaration, under their JSON names; a map is an object whose entries are
  visited in the order a \<^verbatim>\<open>range\<close> over the map yields its keys, an order Go leaves
  unspecified and that may differ from run to run, unless \<^verbatim>\<open>Canonical\<close> is set, in which
  case the keys are sorted first; with a positive \<^verbatim>\<open>Indent\<close> every element starts on a
  line of its own, indented by that many spaces for each level of nesting, with a
  negative one by that many tabs, and with zero nothing is added.
\<close>

datatype json = JString string | JArray "json list" | JObject "(string \<times> json) list"

definition escape :: "char \<Rightarrow> string" where
  "escape c = (if c = CHR 0x22 \<or> c = CHR 0x5C then [CHR 0x5C, c] else [c])"

definition quote :: "string \<Rightarrow> string" where
  "quote s = [CHR 0x22] @ concat (map escape s) @ [CHR 0x22]"

definition indentation :: "int \<Rightarrow> nat \<Rightarrow> string" where
  "indentation n d =
     (if 0 < n then newline # replicate (nat n * d) (CHR '' '')
      else if n < 0 then newline # replicate (nat (- n) * d) (CHR 0x09)
      else [])"

definition colon :: "int \<Rightarrow> string" where
  "colon n = (if n = 0 then '':'' else '': '')"

fun commas :: "string list \<Rightarrow> string" where
  "commas [] = []"
| "commas [x] = x"
| "commas (x # y # ys) = x @ '','' @ commas (y # ys)"

fun render :: "int \<Rightarrow> nat \<Rightarrow> json \<Rightarrow> string" where
  "render n d (JString s) = quote s"
| "render n d (JArray xs) =
     (if xs = [] then ''[]''
      else ''['' @ commas (map (\<lambda>x. indentation n (Suc d) @ render n (Suc d) x) xs)
             @ indentation n d @ '']'')"
| "render n d (JObject kvs) =
     (if kvs = [] then ''{}''
      else ''{'' @ commas (map (\<lambda>kv. indentation n (Suc d) @ quote (fst kv) @ colon n
                                       @ render n (Suc d) (snd kv)) kvs)
             @ indentation n d @ ''}'')"

text \<open>
  The entries of a map of strings in the order the encoder visits them; \<open>iter\<close> is the
  order in which this run iterates over a map.
\<close>

definition visit ::
  "JsonHandle \<Rightarrow> ((string \<rightharpoonup> string) \<Rightarrow> string list) \<Rightarrow> (string \<rightharpoonup> string) \<Rightarrow> (string \<times> json) list" where
  "visit h iter m =
     List.map_filter (\<lambda>k. map_option (\<lambda>v. (k, JString v)) (m k))
       (if Canonical h then sort (iter m) else iter m)"


definition Container_json :: "Container \<Rightarrow> json" where
  "Container_json c =
     JObject [(''name'', JString (Container_Name c)),
              (''image'', JString (Image c)),
              (''command'', JArray (map JString (Command c)))]"

definition Job_json :: "JsonHandle \<Rightarrow> ((string \<rightharpoonup> string) \<Rightarrow> string list) \<Rightarrow> Job \<Rightarrow> json" where
  "Job_json h iter j =
     JObject
       [(''kind'', JString (Kind (Job_TypeMeta j))),
        (''apiVersion'', JString (APIVersion (Job_TypeMeta j))),
        (''metadata'',
           JObject [(''name'', JString (Name (Job_ObjectMeta j))),
                    (''labels'', JObject (visit h iter (Labels (Job_ObjectMeta j))))]),
        (''spec'',
           JObject [(''template'',
             JObject [(''spec'',
               JObject [(''containers'',
                          JArray (map Container_json
                            (Containers (PodTemplate_Spec (Template (Job_Spec j)))))),
                        (''restartPolicy'',
                          JString (RestartPolicy (PodTemplate_Spec (Template (Job_Spec j)))))])])])]"

text \<open>\<^verbatim>\<open>jobSpec.CodecEncodeSelf(encoder)\<close> for an encoder made with handle \<open>h\<close>: the bytes written.\<close>

definition CodecEncodeSelf :: "JsonHandle \<Rightarrow> ((string \<rightharpoonup> string) \<Rightarrow> string list) \<Rightarrow> Job \<Rightarrow> string" where
  "CodecEncodeSelf h iter j = render (Indent h) 0 (Job_json h iter j)"

subsection \<open>The outside world of the command\<close>

text \<open>
  The flags, and what the collaborators answer in this run: the gRPC dial and version
  query, \<^verbatim>\<open>grpc.ErrorDesc\<close>, the creation of the temporary file, the order in which
  this run iterates over a map and the \<^verbatim>\<open>kubectl\<close> process (its combined output and
  its error). \<open>own_version\<close> is \<^verbatim>\<open>version.Version\<close>.
\<close>

record migrate_flags =
  from_flag :: string
  to_flag :: string
  namespace_flag :: string

record cluster =
  address :: string
  own_version :: Version
  Dial :: "string \<Rightarrow> error + unit"
  GetVersion :: "error + Version"
  ErrorDesc :: "error \<Rightarrow> string"
  TempFile :: "error + string"
  range_keys :: "(string \<rightharpoonup> string) \<Rightarrow> string list"
  CombinedOutput :: "string list \<Rightarrow> string \<times> error option"

definition sanitizeErr :: "(error \<Rightarrow> string) \<Rightarrow> error option \<Rightarrow> error option" where
  "sanitizeErr desc r = (case r of None \<Rightarrow> None | Some e \<Rightarrow> Some (desc e))"

subsection \<open>Version resolution\<close>

text \<open>
  The block \<^verbatim>\<open>if from == "" { ... }\<close>: the log, and the error returned or the value of
  \<^verbatim>\<open>from\<close> after it.
\<close>

definition unable_to_discover :: string where
  "unable_to_discover =
     ''unable to discover cluster version; please provide the --from flag.  Error: ''"

definition resolve_from :: "cluster \<Rightarrow> migrate_flags \<Rightarrow> effect list \<times> (error option + string)" where
  "resolve_from w fl =
     (if from_flag fl = [] then
        (case Dial w (address w) of
           Inl e \<Rightarrow> ([Dialed (address w)], Inl (sanitizeErr (ErrorDesc w) (Some e)))
         | Inr u \<Rightarrow>
             (case GetVersion w of
                Inl e \<Rightarrow> ([Dialed (address w), GotVersion], Inl (Some (unable_to_discover @ e)))
              | Inr clusterVersion \<Rightarrow>
                  ([Dialed (address w), GotVersion],
                   Inr (PrettyPrintVersionNoAdditional clusterVersion))))
      else ([], Inr (from_flag fl)))"

text \<open>The block \<^verbatim>\<open>if to == "" { ... }\<close>: the value of \<^verbatim>\<open>to\<close> after it.\<close>

definition resolve_to :: "cluster \<Rightarrow> migrate_flags \<Rightarrow> string" where
  "resolve_to w fl =
     (if to_flag fl = [] then PrettyPrintVersionNoAdditional (own_version w) else to_flag fl)"

text \<open>Both blocks, in the order of the command: the resolved pair, or the error returned.\<close>

definition resolve :: "cluster \<Rightarrow> migrate_flags \<Rightarrow> effect list \<times> (error option + string \<times> string)" where
  "resolve w fl =
     (case resolve_from w fl of
        (l, Inl e) \<Rightarrow> (l, Inl e)
      | (l, Inr f) \<Rightarrow> (l, Inr (f, resolve_to w fl)))"

subsection \<open>The command\<close>

text \<open>
  A run of the command: its log, the job description if the command got as far as
  building it, and the error it returned.
\<close>

record run =
  log :: "effect list"
  built :: "Job option"
  returned :: "error option"

definition kubectl_create :: "string \<Rightarrow> string list" where
  "kubectl_create name = [''kubectl'', ''create'', ''--validate=false'', ''-f'', name]"

definition launched_migration :: string where
  "launched_migration =
     ''Successfully launched migration.  To see the progress, use `kubectl logs job/pach-migration`''
       @ [newline]"

definition migrate :: "cluster \<Rightarrow> migrate_flags \<Rightarrow> run" where
  "migrate w fl =
     (case resolve w fl of
        (l, Inl e) \<Rightarrow> \<lparr>log = l, built = None, returned = e\<rparr>
      | (l, Inr (f, t)) \<Rightarrow>
          (let job = jobSpec (own_version w) f t in
           case TempFile w of
             Inl e \<Rightarrow> \<lparr>log = l, built = Some job, returned = Some e\<rparr>
           | Inr name \<Rightarrow>
               (case CombinedOutput w (kubectl_create name) of
                  (out, r) \<Rightarrow>
                    (let l' = l @ [CreatedTemp name,
                                   Wrote name (CodecEncodeSelf jsonEncoderHandle (range_keys w) job),
                                   Closed name,
                                   Ran (kubectl_create name),
                                   Printed (out @ [newline])]
                     in case r of
                          Some e \<Rightarrow>
                            \<lparr>log = l' @ [Removed name], built = Some job, returned = Some e\<rparr>
                        | None \<Rightarrow>
                            \<lparr>log = l' @ [Printed launched_migration, Removed name],
                             built = Some job, returned = None\<rparr>))))"

text \<open>The bytes of the serialized artifact: what the log says was written.\<close>

fun artifacts :: "effect list \<Rightarrow> string list" where
  "artifacts [] = []"
| "artifacts (Wrote name bytes # l) = bytes # artifacts l"
| "artifacts (e # l) = artifacts l"

section \<open>The delete-all command\<close>

text \<open>
  \<^verbatim>\<open>bufio.Reader.ReadBytes\<close> (standard library) on an input of pending bytes after which
  the underlying reader fails with \<open>e\<close> (\<^verbatim>\<open>io.EOF\<close> at the end of input): the bytes up to
  and including the first delimiter, or every byte read before the error, and the error.
\<close>

fun ReadBytes :: "char \<Rightarrow> string \<Rightarrow> error \<Rightarrow> string \<times> error option" where
  "ReadBytes delim [] e = ([], Some e)"
| "ReadBytes delim (c # cs) e =
     (if c = delim then ([c], None)
      else (case ReadBytes delim cs e of (l, r) \<Rightarrow> (c # l, r)))"

text \<open>
  What the command meets in this run: whether the client can be made, standard input,
  and what \<^verbatim>\<open>client.DeleteAll()\<close> returns if it is called.
\<close>

record console =
  NewMetricsClientFromAddress :: "error + unit"
  describe :: "error \<Rightarrow> string"
  stdin :: string
  stdin_error :: error
  DeleteAll :: "error option"

text \<open>The command returns an error or nil, or panics on an index out of range.\<close>

datatype outcome = Return "error option" | Panic

definition are_you_sure :: string where
  "are_you_sure =
     ''Are you sure you want to delete all repos, commits, files, pipelines and jobs? yN''
       @ [newline]"

definition deleteAll :: "console \<Rightarrow> effect list \<times> outcome" where
  "deleteAll c =
     (case NewMetricsClientFromAddress c of
        Inl e \<Rightarrow> ([], Return (sanitizeErr (describe c) (Some e)))
      | Inr client \<Rightarrow>
          (case ReadBytes newline (stdin c) (stdin_error c) of
             (bytes, Some e) \<Rightarrow> ([Printed are_you_sure, ReadLine bytes], Return (Some e))
           | (bytes, None) \<Rightarrow>
               (case bytes of
                  [] \<Rightarrow> ([Printed are_you_sure, ReadLine bytes], Panic)
                | b # bs \<Rightarrow>
                    if b = CHR ''y'' \<or> b = CHR ''Y''
                    then ([Printed are_you_sure, ReadLine bytes, DeletedAll],
                          Return (DeleteAll c))
                    else ([Printed are_you_sure, ReadLine bytes], Return None))))"

text \<open>The lines the log says were read from standard input.\<close>

fun lines_read :: "effect list \<Rightarrow> string list" where
  "lines_read [] = []"
| "lines_read (ReadLine bytes # l) = bytes # lines_read l"
| "lines_read (e # l) = lines_read l"

text \<open>The first character of a line is \<open>y\<close> or \<open>Y\<close>.\<close>

definition confirmed :: "string \<Rightarrow> bool" where
  "confirmed line = (case line of [] \<Rightarrow> False | b # bs \<Rightarrow> b = CHR ''y'' \<or> b = CHR ''Y'')"

section \<open>Concrete runs\<close>

text \<open>
  Inputs on which the commands are run below: a client of version 1.5.0 and a cluster
  of version 1.4.8 that answers, the same cluster when the version query times out, and
  a command line without flags.
\<close>

definition v1_5_0 :: Version where
  "v1_5_0 = \<lparr>Major = 1, Minor = 5, Micro = 0, Additional = ''''\<rparr>"

definition v1_4_8 :: Version where
  "v1_4_8 = \<lparr>Major = 1, Minor = 4, Micro = 8, Additional = ''''\<rparr>"

definition reachable :: cluster where
  "reachable =
     \<lparr>address = ''127.0.0.1:30650'', own_version = v1_5_0,
      Dial = (\<lambda>a. Inr ()), GetVersion = Inr v1_4_8, ErrorDesc = (\<lambda>e. e),
      TempFile = Inr ''/tmp/903215731'',
      range_keys = (\<lambda>m. [''suite'']),
      CombinedOutput = (\<lambda>argv. (''job created'', None))\<rparr>"

definition unreachable :: cluster where
  "unreachable = reachable\<lparr>GetVersion := Inl ''context deadline exceeded''\<rparr>"

definition no_flags :: migrate_flags where
  "no_flags = \<lparr>from_flag = '''', to_flag = '''', namespace_flag = ''default''\<rparr>"



text \<open>
  A job description with two labels, and two orders in which a run may iterate over
  them.
\<close>

definition two_labels :: Job where
  "two_labels =
     (jobSpec v1_5_0 ''1.4.8'' ''1.5.0'')
       \<lparr>Job_ObjectMeta :=
          \<lparr>Name = ''pach-migration'',
           Labels = [''suite'' \<mapsto> ''pachyderm'', ''app'' \<mapsto> ''pachd'']\<rparr>\<rparr>"

definition suite_first :: "(string \<rightharpoonup> string) \<Rightarrow> string list" where
  "suite_first m = [''suite'', ''app'']"

definition app_first :: "(string \<rightharpoonup> string) \<Rightarrow> string list" where
  "app_first m = [''app'', ''suite'']"

text \<open>
  A terminal on which the given bytes are typed before the end of input, with a server
  that deletes without error; and the same when no client can be made, with the
  description that \<^verbatim>\<open>grpc.ErrorDesc\<close> gives of the error.
\<close>

definition terminal :: "string \<Rightarrow> console" where
  "terminal input =
     \<lparr>NewMetricsClientFromAddress = Inr (), describe = (\<lambda>e. e),
      stdin = input, stdin_error = ''EOF'', DeleteAll = None\<rparr>"

definition no_client :: "string \<Rightarrow> console" where
  "no_client input =
     (terminal input)
       \<lparr>NewMetricsClientFromAddress := Inl ''rpc error: code = 14 desc = connection refused'',
        describe := drop 28\<rparr>"

section \<open>Properties of the port-forward command\<close>

lemma finish_all_wg: "wg (finish_all x g fin) = wg g - int (length fin)"
  unfolding finish_all_def
  by (induction fin arbitrary: g) (simp_all add: task_returns_def)

lemma finish_all_err:
  "err (finish_all x g fin) =
     (case err g of Some e \<Rightarrow> Some e | None \<Rightarrow> first_error (map (task_result x) fin))"
  unfolding finish_all_def
  by (induction fin arbitrary: g) (simp_all add: task_returns_def split: option.splits)

lemma launched_simps: "wg launched = 3" "err launched = None"
  by (simp_all add: launched_def Go_def zero_Group_def)

lemma UNIV_task: "(UNIV :: task set) = {Pachd, DashUI, DashWS}"
proof -
  have "t \<in> {Pachd, DashUI, DashWS}" for t by (cases t) simp_all
  then show ?thesis by blast
qed

lemma distinct_task_length:
  assumes "distinct (fin :: task list)"
  shows "length fin \<le> 3" and "length fin = 3 \<longleftrightarrow> set fin = {Pachd, DashUI, DashWS}"
proof -
  have c: "card (set fin) = length fin" using assms by (rule distinct_card)
  have u: "card (UNIV :: task set) = 3" by (simp add: UNIV_task)
  have fu: "finite (UNIV :: task set)" by (simp add: UNIV_task)
  have "card (set fin) \<le> card (UNIV :: task set)" using fu by (rule card_mono) simp
  with c u show "length fin \<le> 3" by simp
  show "length fin = 3 \<longleftrightarrow> set fin = {Pachd, DashUI, DashWS}"
  proof
    assume "length fin = 3"
    with c u have "card (set fin) = card (UNIV :: task set)" by simp
    moreover have "set fin \<subseteq> UNIV" by simp
    ultimately have "set fin = UNIV" using fu by (intro card_subset_eq) simp_all
    then show "set fin = {Pachd, DashUI, DashWS}" by (simp add: UNIV_task)
  next
    assume "set fin = {Pachd, DashUI, DashWS}"
    with c show "length fin = 3" by simp
  qed
qed

lemma portForward_eq:
  "portForward x fin =
     (if length fin = 3 then Some (first_error (map (task_result x) fin)) else None)"
  by (simp add: portForward_def Wait_def finish_all_wg finish_all_err launched_simps)

lemma complete_cases:
  assumes "complete fin"
  shows "fin \<in> {[Pachd, DashUI, DashWS], [Pachd, DashWS, DashUI], [DashUI, Pachd, DashWS],
                [DashUI, DashWS, Pachd], [DashWS, Pachd, DashUI], [DashWS, DashUI, Pachd]}"
proof -
  from assms have d: "distinct fin" and s: "set fin = {Pachd, DashUI, DashWS}"
    by (simp_all add: complete_def)
  from d s have "length fin = 3" by (simp add: distinct_task_length)
  then obtain a b c where f: "fin = [a, b, c]"
    by (auto simp: numeral_3_eq_3 length_Suc_conv)
  from d s show ?thesis unfolding f
    by (cases a; cases b; cases c) auto
qed

lemma returned_before_simps:
  "returned_before a b [] = False"
  "returned_before a b (t # ts) = (t \<noteq> b \<and> (a = t \<or> returned_before a b ts))"
  by (auto simp: returned_before_def)

text \<open>
  Claim C1, as the code has it. For every order in which the three tasks return: the
  result of the dashboard-websocket process never changes what the command returns;
  the error of the dashboard-UI process is replaced by the fixed error
  "UI not enabled, deploy with --dashboard", whatever it was, and that error is returned
  to the group, so the command returns nil exactly when neither the pachd process nor
  the dashboard-UI process failed; when the pachd process and the dashboard-UI process
  both fail, the command returns the fixed UI error if the UI task returned before the
  pachd task, and the error of the pachd process otherwise.
\<close>

theorem C1_best_effort_failures:
  assumes "complete fin"
  shows "portForward (x\<lparr>ws_exit := w\<rparr>) fin = portForward x fin
       \<and> portForward (x\<lparr>ui_exit := Some e\<rparr>) fin = portForward (x\<lparr>ui_exit := Some e'\<rparr>) fin
       \<and> (portForward x fin = Some None \<longleftrightarrow> pachd_exit x = None \<and> ui_exit x = None)
       \<and> (\<forall>p u. pachd_exit x = Some p \<and> ui_exit x = Some u \<longrightarrow>
            portForward x fin =
              Some (Some (if returned_before DashUI Pachd fin then UI_not_enabled else p)))"
  using complete_cases [OF assms]
  by (auto simp: portForward_eq pachd_forward_def ui_forward_def ws_forward_def
        returned_before_simps split: option.splits)

text \<open>
  The theorem at a run in which all three processes fail and the pachd task returns
  last, and at a run in which only the websocket process fails.
\<close>

theorem C1_best_effort_failures_witness:
  "complete [DashUI, DashWS, Pachd]
   \<and> portForward \<lparr>pachd_exit = Some ''exit status 1'', ui_exit = Some ''exit status 2'',
                   ws_exit = Some ''exit status 3''\<rparr> [DashUI, DashWS, Pachd]
       = Some (Some ''UI not enabled, deploy with --dashboard'')
   \<and> portForward \<lparr>pachd_exit = None, ui_exit = None, ws_exit = Some ''exit status 3''\<rparr>
        [DashUI, DashWS, Pachd] = Some None"
proof -
  have c: "complete [DashUI, DashWS, Pachd]" by (auto simp: complete_def)
  show ?thesis
    using c
      C1_best_effort_failures [OF c,
        where x = "\<lparr>pachd_exit = Some ''exit status 1'', ui_exit = Some ''exit status 2'',
              ws_exit = Some ''exit status 3''\<rparr>"]
      C1_best_effort_failures [OF c,
        where x = "\<lparr>pachd_exit = None, ui_exit = None, ws_exit = Some ''exit status 3''\<rparr>"]
    by (simp add: returned_before_simps UI_not_enabled_def)
qed

text \<open>
  Claim C1 as stated fails: with the pachd and websocket processes succeeding, a failure
  of the dashboard-UI process alone makes the command return an error; and when all
  three processes fail and the UI task returns first, the error returned is the one
  of the UI task.
\<close>

theorem C1_counterexample:
  "portForward \<lparr>pachd_exit = None, ui_exit = Some ''exit status 1'', ws_exit = None\<rparr>
       [DashUI, Pachd, DashWS] = Some (Some ''UI not enabled, deploy with --dashboard'')
   \<and> portForward \<lparr>pachd_exit = None, ui_exit = None, ws_exit = None\<rparr>
       [DashUI, Pachd, DashWS] = Some None
   \<and> portForward \<lparr>pachd_exit = Some ''exit status 1'', ui_exit = Some ''exit status 1'',
                   ws_exit = Some ''exit status 1''\<rparr>
       [DashUI, DashWS, Pachd] = Some (Some ''UI not enabled, deploy with --dashboard'')"
  by (simp add: portForward_eq pachd_forward_def ui_forward_def ws_forward_def UI_not_enabled_def)

text \<open>
  Claim C7, as the code has it. With \<open>fin\<close> the tasks that have returned so far, each
  once: the command has returned exactly when all three tasks have; when no process
  failed it then returns nil; when the pachd process failed with \<open>p\<close> it then returns
  an error, which is \<open>p\<close> unless the dashboard-UI process failed too and its task
  returned before the pachd task, in which case it is the fixed UI error.
\<close>

theorem C7_wait_for_all:
  assumes "distinct fin"
  shows "(portForward x fin \<noteq> None \<longleftrightarrow> set fin = {Pachd, DashUI, DashWS})
       \<and> (set fin = {Pachd, DashUI, DashWS} \<and> pachd_exit x = None \<and> ui_exit x = None
            \<and> ws_exit x = None
            \<longrightarrow> portForward x fin = Some None)
       \<and> (\<forall>p. set fin = {Pachd, DashUI, DashWS} \<and> pachd_exit x = Some p \<longrightarrow>
            portForward x fin =
              Some (Some (if ui_exit x \<noteq> None \<and> returned_before DashUI Pachd fin
                          then UI_not_enabled else p)))"
proof (cases "set fin = {Pachd, DashUI, DashWS}")
  case True
  with assms have "complete fin" by (simp add: complete_def)
  from complete_cases [OF this] True show ?thesis
    by (auto simp: portForward_eq pachd_forward_def ui_forward_def ws_forward_def
        returned_before_simps split: option.splits)
next
  case False
  with assms have "length fin \<noteq> 3" by (simp add: distinct_task_length)
  with False show ?thesis by (simp add: portForward_eq)
qed

text \<open>
  The theorem while the UI task is still running, after all three tasks returned with no
  failure, and after all three returned with the pachd process failed.
\<close>

theorem C7_wait_for_all_witness:
  "distinct [Pachd, DashWS]
   \<and> portForward \<lparr>pachd_exit = None, ui_exit = None, ws_exit = None\<rparr> [Pachd, DashWS] = None
   \<and> distinct [Pachd, DashWS, DashUI]
   \<and> portForward \<lparr>pachd_exit = None, ui_exit = None, ws_exit = None\<rparr> [Pachd, DashWS, DashUI]
       = Some None
   \<and> portForward \<lparr>pachd_exit = Some ''exit status 1'', ui_exit = None, ws_exit = None\<rparr>
        [Pachd, DashWS, DashUI] = Some (Some ''exit status 1'')"
proof -
  have d2: "distinct [Pachd, DashWS]" and d3: "distinct [Pachd, DashWS, DashUI]" by simp_all
  have s2: "set [Pachd, DashWS] \<noteq> {Pachd, DashUI, DashWS}" by auto
  have s3: "set [Pachd, DashWS, DashUI] = {Pachd, DashUI, DashWS}" by auto
  show ?thesis
    using d2 d3 s2 s3
      C7_wait_for_all [OF d2, where x = "\<lparr>pachd_exit = None, ui_exit = None, ws_exit = None\<rparr>"]
      C7_wait_for_all [OF d3, where x = "\<lparr>pachd_exit = None, ui_exit = None, ws_exit = None\<rparr>"]
      C7_wait_for_all [OF d3,
        where x = "\<lparr>pachd_exit = Some ''exit status 1'', ui_exit = None, ws_exit = None\<rparr>"]
    by simp
qed

text \<open>
  Claim C7 as stated fails: the pachd process and the dashboard-UI process both fail, the
  UI task returns first, and the command returns the error of the UI task, not the one
  of the pachd task.
\<close>

theorem C7_counterexample:
  "portForward \<lparr>pachd_exit = Some ''exit status 1'', ui_exit = Some ''exit status 1'',
                 ws_exit = None\<rparr> [DashUI, Pachd, DashWS]
     = Some (Some ''UI not enabled, deploy with --dashboard'')
   \<and> portForward \<lparr>pachd_exit = Some ''exit status 1'', ui_exit = Some ''exit status 1'',
                 ws_exit = None\<rparr> [DashUI, Pachd, DashWS]
     \<noteq> Some (Some ''exit status 1'')"
  by (simp add: portForward_eq pachd_forward_def ui_forward_def ws_forward_def UI_not_enabled_def)

section \<open>Properties of version resolution\<close>

lemma decimal_digit: "n < 10 \<Longrightarrow> decimal n = [digit n]"
  by (simp add: decimal.simps)

lemma PrettyPrint_examples:
  "PrettyPrintVersionNoAdditional v1_5_0 = ''1.5.0''"
  "PrettyPrintVersionNoAdditional v1_4_8 = ''1.4.8''"
  "PrettyPrintVersion v1_5_0 = ''1.5.0''"
  by (simp_all add: PrettyPrintVersion_def PrettyPrintVersionNoAdditional_def v1_5_0_def v1_4_8_def
      decimal_digit digit_def)

lemma resolve_query:
  assumes "from_flag fl = []" and "Dial w (address w) = Inr u" and "GetVersion w = Inr v"
  shows "resolve w fl =
           ([Dialed (address w), GotVersion],
            Inr (PrettyPrintVersionNoAdditional v, resolve_to w fl))"
  using assms by (simp add: resolve_def resolve_from_def)

lemma resolve_explicit_from:
  assumes "from_flag fl \<noteq> []"
  shows "resolve w fl = ([], Inr (from_flag fl, resolve_to w fl))"
  using assms by (simp add: resolve_def resolve_from_def)

lemma resolve_Inr_to:
  assumes "resolve w fl = (l, Inr (f, t))"
  shows "t = resolve_to w fl"
  using assms by (simp add: resolve_def split: prod.splits sum.splits)

text \<open>
  Claim C3. When both \<^verbatim>\<open>--from\<close> and \<^verbatim>\<open>--to\<close> are given and not empty, version
  resolution returns exactly that pair and does nothing else: the log of the whole
  command holds no dial and no version query, and the job is built from that pair.
\<close>

theorem C3_explicit_versions:
  assumes "from_flag fl \<noteq> []" and "to_flag fl \<noteq> []"
  shows "resolve w fl = ([], Inr (from_flag fl, to_flag fl))
       \<and> GotVersion \<notin> set (log (migrate w fl))
       \<and> Dialed (address w) \<notin> set (log (migrate w fl))
       \<and> built (migrate w fl) = Some (jobSpec (own_version w) (from_flag fl) (to_flag fl))"
proof -
  from assms have r: "resolve w fl = ([], Inr (from_flag fl, to_flag fl))"
    by (simp add: resolve_def resolve_from_def resolve_to_def)
  then show ?thesis
    by (simp add: migrate_def Let_def split: sum.splits prod.splits option.splits)
qed

text \<open>The theorem on a cluster whose version query would time out.\<close>

theorem C3_explicit_versions_witness:
  "resolve unreachable \<lparr>from_flag = ''1.4.8'', to_flag = ''1.5.0'', namespace_flag = ''default''\<rparr>
     = ([], Inr (''1.4.8'', ''1.5.0''))"
  using C3_explicit_versions
    [of "\<lparr>from_flag = ''1.4.8'', to_flag = ''1.5.0'', namespace_flag = ''default''\<rparr>" unreachable]
  by simp

text \<open>
  Claim C4. When \<^verbatim>\<open>--to\<close> is empty, the resolved \<open>to\<close> is the own version of the client
  formatted without its qualifier: whenever resolution yields a pair, with an explicit
  \<^verbatim>\<open>--from\<close> (no query) and with a \<^verbatim>\<open>--from\<close> taken from the answer of the cluster.
  In particular, with both flags empty, own version 1.5.0 and a cluster that answers
  1.4.8, the resolved pair is ("1.4.8", "1.5.0").
\<close>

theorem C4_default_to:
  assumes "to_flag fl = []"
  shows "(\<forall>l f t. resolve w fl = (l, Inr (f, t)) \<longrightarrow>
            t = PrettyPrintVersionNoAdditional (own_version w))
       \<and> (from_flag fl \<noteq> [] \<longrightarrow>
            resolve w fl =
              ([], Inr (from_flag fl, PrettyPrintVersionNoAdditional (own_version w))))
       \<and> (\<forall>u v. from_flag fl = [] \<and> Dial w (address w) = Inr u \<and> GetVersion w = Inr v \<longrightarrow>
            resolve w fl =
              ([Dialed (address w), GotVersion],
               Inr (PrettyPrintVersionNoAdditional v,
                    PrettyPrintVersionNoAdditional (own_version w))))
       \<and> (\<forall>u. from_flag fl = [] \<and> Dial w (address w) = Inr u
              \<and> own_version w = \<lparr>Major = 1, Minor = 5, Micro = 0, Additional = ''''\<rparr>
              \<and> GetVersion w = Inr \<lparr>Major = 1, Minor = 4, Micro = 8, Additional = ''''\<rparr> \<longrightarrow>
            snd (resolve w fl) = Inr (''1.4.8'', ''1.5.0''))"
proof -
  from assms have t: "resolve_to w fl = PrettyPrintVersionNoAdditional (own_version w)"
    by (simp add: resolve_to_def)
  have a: "\<forall>l f t. resolve w fl = (l, Inr (f, t)) \<longrightarrow>
            t = PrettyPrintVersionNoAdditional (own_version w)"
    using resolve_Inr_to [of w fl] t by simp
  have b: "from_flag fl \<noteq> [] \<longrightarrow>
            resolve w fl =
              ([], Inr (from_flag fl, PrettyPrintVersionNoAdditional (own_version w)))"
    using resolve_explicit_from [of fl w] t by simp
  have c: "\<forall>u v. from_flag fl = [] \<and> Dial w (address w) = Inr u \<and> GetVersion w = Inr v \<longrightarrow>
            resolve w fl =
              ([Dialed (address w), GotVersion],
               Inr (PrettyPrintVersionNoAdditional v,
                    PrettyPrintVersionNoAdditional (own_version w)))"
    using resolve_query [of fl w] t by simp
  have d: "\<forall>u. from_flag fl = [] \<and> Dial w (address w) = Inr u
              \<and> own_version w = \<lparr>Major = 1, Minor = 5, Micro = 0, Additional = ''''\<rparr>
              \<and> GetVersion w = Inr \<lparr>Major = 1, Minor = 4, Micro = 8, Additional = ''''\<rparr> \<longrightarrow>
            snd (resolve w fl) = Inr (''1.4.8'', ''1.5.0'')"
  proof (intro allI impI, elim conjE)
    fix u
    assume f: "from_flag fl = []" and dl: "Dial w (address w) = Inr u"
      and o: "own_version w = \<lparr>Major = 1, Minor = 5, Micro = 0, Additional = ''''\<rparr>"
      and g: "GetVersion w = Inr \<lparr>Major = 1, Minor = 4, Micro = 8, Additional = ''''\<rparr>"
    from resolve_query [OF f dl g] t o
    show "snd (resolve w fl) = Inr (''1.4.8'', ''1.5.0'')"
      using PrettyPrint_examples(1,2) by (simp add: v1_5_0_def v1_4_8_def)
  qed
  from a b c d show ?thesis by blast
qed

text \<open>The scenario of the claim, run.\<close>

theorem C4_default_to_witness:
  "to_flag no_flags = [] \<and> from_flag no_flags = []
   \<and> resolve reachable no_flags = ([Dialed ''127.0.0.1:30650'', GotVersion], Inr (''1.4.8'', ''1.5.0''))"
proof -
  have t: "to_flag no_flags = []" and f: "from_flag no_flags = []" by (simp_all add: no_flags_def)
  have d: "Dial reachable (address reachable) = Inr ()"
    and g: "GetVersion reachable = Inr v1_4_8"
    and o: "own_version reachable = v1_5_0"
    and a: "address reachable = ''127.0.0.1:30650''"
    by (simp_all add: reachable_def)
  from C4_default_to [OF t, of reachable] f d g
  have "resolve reachable no_flags =
          ([Dialed (address reachable), GotVersion],
           Inr (PrettyPrintVersionNoAdditional v1_4_8,
                PrettyPrintVersionNoAdditional (own_version reachable)))"
    by blast
  then show ?thesis
    using t f by (simp only: o a PrettyPrint_examples simp_thms)
qed


section \<open>Properties of the migrate command\<close>

lemma migrate_resolve_error:
  assumes "resolve w fl = (l, Inl e)"
  shows "migrate w fl = \<lparr>log = l, built = None, returned = e\<rparr>"
  using assms by (simp add: migrate_def)

lemma migrate_built:
  assumes "resolve w fl = (l, Inr (f, t))"
  shows "built (migrate w fl) = Some (jobSpec (own_version w) f t)"
  using assms by (simp add: migrate_def Let_def split: sum.splits prod.splits option.splits)




lemma resolve_reachable:
  "resolve reachable no_flags = ([Dialed ''127.0.0.1:30650'', GotVersion], Inr (''1.4.8'', ''1.5.0''))"
proof -
  have "resolve reachable no_flags =
          ([Dialed (address reachable), GotVersion],
           Inr (PrettyPrintVersionNoAdditional v1_4_8, resolve_to reachable no_flags))"
    by (rule resolve_query [where u = "()"]) (simp_all add: reachable_def no_flags_def)
  moreover have "resolve_to reachable no_flags = PrettyPrintVersionNoAdditional v1_5_0"
    by (simp add: resolve_to_def reachable_def no_flags_def)
  moreover have "address reachable = ''127.0.0.1:30650''" by (simp add: reachable_def)
  ultimately show ?thesis by (simp only: PrettyPrint_examples)
qed

text \<open>
  Claim C5. Whenever version resolution yields a pair, the command builds a job
  description whose name is "pach-migration", whose only label is suite=pachyderm, whose
  one container has the image "pachyderm/pachd:" followed by the own version of the
  client and the command line "/pachd", "--migrate=<from>-<to>" for the resolved pair,
  and whose restart policy is "OnFailure".
\<close>

theorem C5_job_description:
  assumes "resolve w fl = (l, Inr (f, t))"
  shows "\<exists>j. built (migrate w fl) = Some j
       \<and> Name (Job_ObjectMeta j) = ''pach-migration''
       \<and> dom (Labels (Job_ObjectMeta j)) = {''suite''}
       \<and> Labels (Job_ObjectMeta j) ''suite'' = Some ''pachyderm''
       \<and> map Image (Containers (PodTemplate_Spec (Template (Job_Spec j))))
           = [''pachyderm/pachd:'' @ PrettyPrintVersion (own_version w)]
       \<and> map Command (Containers (PodTemplate_Spec (Template (Job_Spec j))))
           = [[''/pachd'', ''--migrate='' @ f @ ''-'' @ t]]
       \<and> RestartPolicy (PodTemplate_Spec (Template (Job_Spec j))) = ''OnFailure''"
proof (intro exI conjI)
  show "built (migrate w fl) = Some (jobSpec (own_version w) f t)"
    by (rule migrate_built [OF assms])
qed (simp_all add: jobSpec_def)

text \<open>The theorem on the client 1.5.0 and the cluster that answers 1.4.8, without flags.\<close>

theorem C5_job_description_witness:
  "map Image (Containers (PodTemplate_Spec (Template (Job_Spec
      (the (built (migrate reachable no_flags)))))))
     = [''pachyderm/pachd:1.5.0'']
   \<and> map Command (Containers (PodTemplate_Spec (Template (Job_Spec
      (the (built (migrate reachable no_flags)))))))
     = [[''/pachd'', ''--migrate=1.4.8-1.5.0'']]"
proof -
  have o: "PrettyPrintVersion (own_version reachable) = ''1.5.0''"
    using PrettyPrint_examples(3) by (simp add: reachable_def)
  from C5_job_description [OF resolve_reachable] show ?thesis
    unfolding o by (elim exE conjE) simp
qed

subsection \<open>The encoder\<close>






text \<open>
  Without \<^verbatim>\<open>Canonical\<close> the bytes depend on the order of iteration: the job description
  with two labels is written differently under the two orders.
\<close>

lemma not_canonical_example:
  "CodecEncodeSelf \<lparr>Canonical = False, Indent = 2\<rparr> suite_first two_labels
     \<noteq> CodecEncodeSelf \<lparr>Canonical = False, Indent = 2\<rparr> app_first two_labels"
  by (simp add: CodecEncodeSelf_def Job_json_def visit_def two_labels_def suite_first_def
      app_first_def List.map_filter_simps quote_def escape_def indentation_def colon_def)









text \<open>
  Claim C2, as the code has it. When \<^verbatim>\<open>--from\<close> is empty and the version query fails
  with \<open>e\<close>, the command has dialled and queried and done nothing else: it returns the
  error "unable to discover cluster version; please provide the --from flag.  Error: "
  followed by \<open>e\<close>, which tells the caller to give \<^verbatim>\<open>--from\<close>; no job description is
  built, no temporary file is created and nothing is written.
\<close>

theorem C2_query_failure:
  assumes "from_flag fl = []" and "Dial w (address w) = Inr u" and "GetVersion w = Inl e"
  shows "migrate w fl =
           \<lparr>log = [Dialed (address w), GotVersion], built = None,
            returned = Some (''unable to discover cluster version; please provide the --from flag.  Error: '' @ e)\<rparr>
       \<and> sublist ''please provide the --from flag'' (the (returned (migrate w fl)))
       \<and> suffix e (the (returned (migrate w fl)))
       \<and> (\<forall>name. CreatedTemp name \<notin> set (log (migrate w fl)))
       \<and> artifacts (log (migrate w fl)) = []"
proof -
  have s: "sublist ''please provide the --from flag'' (unable_to_discover @ e)"
    unfolding sublist_def unable_to_discover_def
    by (rule exI [of _ "''unable to discover cluster version; ''"],
        rule exI [of _ "''.  Error: '' @ e"]) simp
  have x: "suffix e (unable_to_discover @ e)"
    by (rule suffixI) simp
  from assms
  have "resolve w fl = ([Dialed (address w), GotVersion], Inl (Some (unable_to_discover @ e)))"
    by (simp add: resolve_def resolve_from_def)
  then have m: "migrate w fl =
      \<lparr>log = [Dialed (address w), GotVersion], built = None,
       returned = Some (unable_to_discover @ e)\<rparr>"
    by (rule migrate_resolve_error)
  show ?thesis
    unfolding unable_to_discover_def [symmetric]
    by (simp add: m s x)
qed

text \<open>The theorem on the cluster whose version query times out.\<close>

theorem C2_query_failure_witness:
  "migrate unreachable no_flags =
     \<lparr>log = [Dialed ''127.0.0.1:30650'', GotVersion], built = None,
      returned = Some ''unable to discover cluster version; please provide the --from flag.  Error: context deadline exceeded''\<rparr>"
proof -
  have "from_flag no_flags = []" "Dial unreachable (address unreachable) = Inr ()"
    "GetVersion unreachable = Inl ''context deadline exceeded''"
    "address unreachable = ''127.0.0.1:30650''"
    by (simp_all add: no_flags_def unreachable_def reachable_def)
  with C2_query_failure [of no_flags unreachable "()" "''context deadline exceeded''"]
  show ?thesis by simp
qed

text \<open>
  Claim C2 as stated fails: the message of the error quotes the error of the query and
  nothing else of the run. When that error is "context deadline exceeded", the message
  does not contain the address of the server.
\<close>

theorem C2_counterexample:
  "from_flag no_flags = []
   \<and> GetVersion unreachable = Inl ''context deadline exceeded''
   \<and> address unreachable = ''127.0.0.1:30650''
   \<and> returned (migrate unreachable no_flags) =
       Some ''unable to discover cluster version; please provide the --from flag.  Error: context deadline exceeded''
   \<and> \<not> sublist ''127.0.0.1:30650''
         ''unable to discover cluster version; please provide the --from flag.  Error: context deadline exceeded''"
proof -
  have "\<not> sublist ''127.0.0.1:30650''
         ''unable to discover cluster version; please provide the --from flag.  Error: context deadline exceeded''"
    by code_simp
  moreover have "returned (migrate unreachable no_flags) =
       Some ''unable to discover cluster version; please provide the --from flag.  Error: context deadline exceeded''"
    by (simp add: migrate_def resolve_def resolve_from_def unreachable_def reachable_def
        no_flags_def unable_to_discover_def)
  ultimately show ?thesis
    by (simp add: unreachable_def reachable_def no_flags_def)
qed

text \<open>
  Claim C9. The value of \<^verbatim>\<open>--namespace\<close> changes nothing: a run with any other value
  has the same log (the same file, the same bytes written, the same \<^verbatim>\<open>kubectl\<close> command
  line), builds the same job description and returns the same error.
\<close>

theorem C9_namespace_unused:
  "migrate w (fl\<lparr>namespace_flag := n\<rparr>) = migrate w fl"
  by (simp add: migrate_def resolve_def resolve_from_def resolve_to_def)

section \<open>Properties of the delete-all command\<close>

lemma ReadBytes_delim:
  "ReadBytes d s e = (l, None) \<Longrightarrow> l \<noteq> [] \<and> last l = d"
  by (induction s arbitrary: l) (auto split: if_splits prod.splits)

lemma ReadBytes_error:
  "ReadBytes d s e = (l, Some e') \<Longrightarrow> e' = e \<and> l = s \<and> d \<notin> set s"
  by (induction s arbitrary: l) (auto split: if_splits prod.splits)

lemma deleteAll_read_error:
  assumes "NewMetricsClientFromAddress c = Inr u"
    and "ReadBytes newline (stdin c) (stdin_error c) = (line, Some e)"
  shows "deleteAll c = ([Printed are_you_sure, ReadLine line], Return (Some e))"
  using assms by (simp add: deleteAll_def)

lemma deleteAll_yes:
  assumes "NewMetricsClientFromAddress c = Inr u"
    and "ReadBytes newline (stdin c) (stdin_error c) = (line, None)"
    and "confirmed line"
  shows "deleteAll c = ([Printed are_you_sure, ReadLine line, DeletedAll], Return (DeleteAll c))"
  using assms by (auto simp: deleteAll_def confirmed_def split: list.splits)

lemma deleteAll_no:
  assumes "NewMetricsClientFromAddress c = Inr u"
    and "ReadBytes newline (stdin c) (stdin_error c) = (line, None)"
    and "\<not> confirmed line"
  shows "deleteAll c = ([Printed are_you_sure, ReadLine line], Return None)"
  using assms ReadBytes_delim [OF assms(2)]
  by (auto simp: deleteAll_def confirmed_def split: list.splits)

text \<open>
  Claim C8, as the code has it. When the client cannot be made, the command returns
  the description of that error at once: nothing is printed, no line is read and the
  deletion is not called. In every run in which the client was made, one line is
  read from standard input. If the read succeeds and the first character of the line is
  \<open>y\<close> or \<open>Y\<close>, the deletion is called exactly once and the command returns what
  the deletion returned; if the read succeeds with any other line, the deletion is not
  called and the command returns nil; if the read fails, the deletion is not called and
  the command returns the error of the read.
\<close>

theorem C8_confirmation_gate:
  "(\<forall>e. NewMetricsClientFromAddress c = Inl e \<longrightarrow>
        deleteAll c = ([], Return (Some (describe c e)))
        \<and> lines_read (fst (deleteAll c)) = []
        \<and> count_list (fst (deleteAll c)) DeletedAll = 0)
   \<and> (\<forall>u. NewMetricsClientFromAddress c = Inr u \<longrightarrow>
        (\<exists>line r. ReadBytes newline (stdin c) (stdin_error c) = (line, r)
           \<and> lines_read (fst (deleteAll c)) = [line]
           \<and> (r = None \<and> confirmed line \<longrightarrow>
                count_list (fst (deleteAll c)) DeletedAll = 1
                \<and> snd (deleteAll c) = Return (DeleteAll c))
           \<and> (r = None \<and> \<not> confirmed line \<longrightarrow>
                count_list (fst (deleteAll c)) DeletedAll = 0
                \<and> snd (deleteAll c) = Return None)
           \<and> (\<forall>e. r = Some e \<longrightarrow>
                count_list (fst (deleteAll c)) DeletedAll = 0
                \<and> snd (deleteAll c) = Return (Some e))))"
proof (rule conjI)
  show "\<forall>e. NewMetricsClientFromAddress c = Inl e \<longrightarrow>
        deleteAll c = ([], Return (Some (describe c e)))
        \<and> lines_read (fst (deleteAll c)) = []
        \<and> count_list (fst (deleteAll c)) DeletedAll = 0"
    by (simp add: deleteAll_def sanitizeErr_def)
next
  show "\<forall>u. NewMetricsClientFromAddress c = Inr u \<longrightarrow>
        (\<exists>line r. ReadBytes newline (stdin c) (stdin_error c) = (line, r)
           \<and> lines_read (fst (deleteAll c)) = [line]
           \<and> (r = None \<and> confirmed line \<longrightarrow>
                count_list (fst (deleteAll c)) DeletedAll = 1
                \<and> snd (deleteAll c) = Return (DeleteAll c))
           \<and> (r = None \<and> \<not> confirmed line \<longrightarrow>
                count_list (fst (deleteAll c)) DeletedAll = 0
                \<and> snd (deleteAll c) = Return None)
           \<and> (\<forall>e. r = Some e \<longrightarrow>
                count_list (fst (deleteAll c)) DeletedAll = 0
                \<and> snd (deleteAll c) = Return (Some e)))"
  proof (rule allI, rule impI)
  fix u
  assume made: "NewMetricsClientFromAddress c = Inr u"
  obtain line r where rb: "ReadBytes newline (stdin c) (stdin_error c) = (line, r)"
    by (cases "ReadBytes newline (stdin c) (stdin_error c)")
  show "\<exists>line r. ReadBytes newline (stdin c) (stdin_error c) = (line, r)
           \<and> lines_read (fst (deleteAll c)) = [line]
           \<and> (r = None \<and> confirmed line \<longrightarrow>
                count_list (fst (deleteAll c)) DeletedAll = 1
                \<and> snd (deleteAll c) = Return (DeleteAll c))
           \<and> (r = None \<and> \<not> confirmed line \<longrightarrow>
                count_list (fst (deleteAll c)) DeletedAll = 0
                \<and> snd (deleteAll c) = Return None)
           \<and> (\<forall>e. r = Some e \<longrightarrow>
                count_list (fst (deleteAll c)) DeletedAll = 0
                \<and> snd (deleteAll c) = Return (Some e))"
  proof (intro exI conjI, rule rb)
    show "lines_read (fst (deleteAll c)) = [line]"
    proof (cases r)
      case None
      with rb deleteAll_yes [OF made, of line] deleteAll_no [OF made, of line]
      show ?thesis by (cases "confirmed line") simp_all
    next
      case (Some e)
      with rb deleteAll_read_error [OF made, of line e] show ?thesis by simp
    qed
    show "r = None \<and> confirmed line \<longrightarrow>
            count_list (fst (deleteAll c)) DeletedAll = 1
            \<and> snd (deleteAll c) = Return (DeleteAll c)"
      using rb deleteAll_yes [OF made, of line] by auto
    show "r = None \<and> \<not> confirmed line \<longrightarrow>
            count_list (fst (deleteAll c)) DeletedAll = 0
            \<and> snd (deleteAll c) = Return None"
      using rb deleteAll_no [OF made, of line] by auto
    show "\<forall>e. r = Some e \<longrightarrow>
            count_list (fst (deleteAll c)) DeletedAll = 0
            \<and> snd (deleteAll c) = Return (Some e)"
      using rb deleteAll_read_error [OF made, of line] by auto
  qed
qed
qed

text \<open>Lines typed at the terminal, and an input that ends before its newline.\<close>

lemma ReadBytes_examples:
  "ReadBytes newline (''y'' @ [newline] @ ''rest'') e = (''y'' @ [newline], None)"
  "ReadBytes newline (''n'' @ [newline]) e = (''n'' @ [newline], None)"
  "ReadBytes newline ''y'' e = (''y'', Some e)"
  "ReadBytes newline [] e = ([], Some e)"
  by (simp_all add: newline_def)

lemma terminal_simps:
  "NewMetricsClientFromAddress (terminal x) = Inr ()"
  "stdin (terminal x) = x"
  "stdin_error (terminal x) = ''EOF''"
  "DeleteAll (terminal x) = None"
  by (simp_all add: terminal_def)

lemma no_client_simps:
  "NewMetricsClientFromAddress (no_client x) = Inl ''rpc error: code = 14 desc = connection refused''"
  "describe (no_client x) ''rpc error: code = 14 desc = connection refused'' = ''connection refused''"
  by (simp_all add: no_client_def terminal_def eval_nat_numeral)

text \<open>
  The theorem on the answers "y", "n" and an unfinished line, and on a run in which no
  client can be made while "y" waits on standard input.
\<close>

theorem C8_confirmation_gate_witness:
  "lines_read (fst (deleteAll (terminal (''y'' @ [newline] @ ''rest'')))) = [''y'' @ [newline]]
   \<and> count_list (fst (deleteAll (terminal (''y'' @ [newline] @ ''rest'')))) DeletedAll = 1
   \<and> snd (deleteAll (terminal (''y'' @ [newline] @ ''rest''))) = Return None
   \<and> lines_read (fst (deleteAll (terminal (''n'' @ [newline])))) = [''n'' @ [newline]]
   \<and> count_list (fst (deleteAll (terminal (''n'' @ [newline])))) DeletedAll = 0
   \<and> snd (deleteAll (terminal (''n'' @ [newline]))) = Return None
   \<and> lines_read (fst (deleteAll (terminal ''y''))) = [''y'']
   \<and> count_list (fst (deleteAll (terminal ''y''))) DeletedAll = 0
   \<and> snd (deleteAll (terminal ''y'')) = Return (Some ''EOF'')
   \<and> deleteAll (no_client (''y'' @ [newline])) = ([], Return (Some ''connection refused''))
   \<and> count_list (fst (deleteAll (no_client (''y'' @ [newline])))) DeletedAll = 0"
proof -
  have y: "confirmed (''y'' @ [newline])" and n: "\<not> confirmed (''n'' @ [newline])"
    by (simp_all add: confirmed_def)
  have made: "NewMetricsClientFromAddress c = Inr u \<Longrightarrow>
      \<exists>line r. ReadBytes newline (stdin c) (stdin_error c) = (line, r)
           \<and> lines_read (fst (deleteAll c)) = [line]
           \<and> (r = None \<and> confirmed line \<longrightarrow>
                count_list (fst (deleteAll c)) DeletedAll = 1
                \<and> snd (deleteAll c) = Return (DeleteAll c))
           \<and> (r = None \<and> \<not> confirmed line \<longrightarrow>
                count_list (fst (deleteAll c)) DeletedAll = 0
                \<and> snd (deleteAll c) = Return None)
           \<and> (\<forall>e. r = Some e \<longrightarrow>
                count_list (fst (deleteAll c)) DeletedAll = 0
                \<and> snd (deleteAll c) = Return (Some e))" for c u
    using C8_confirmation_gate [of c] by (elim conjE allE [of _ u]) (rule mp)
  have 1: "lines_read (fst (deleteAll (terminal (''y'' @ [newline] @ ''rest'')))) = [''y'' @ [newline]]
     \<and> count_list (fst (deleteAll (terminal (''y'' @ [newline] @ ''rest'')))) DeletedAll = 1
     \<and> snd (deleteAll (terminal (''y'' @ [newline] @ ''rest''))) = Return None"
    using made [OF terminal_simps(1), of "''y'' @ [newline] @ ''rest''"] y
    unfolding terminal_simps ReadBytes_examples by (elim exE conjE) simp
  have 2: "lines_read (fst (deleteAll (terminal (''n'' @ [newline])))) = [''n'' @ [newline]]
     \<and> count_list (fst (deleteAll (terminal (''n'' @ [newline])))) DeletedAll = 0
     \<and> snd (deleteAll (terminal (''n'' @ [newline]))) = Return None"
    using made [OF terminal_simps(1), of "''n'' @ [newline]"] n
    unfolding terminal_simps ReadBytes_examples by (elim exE conjE) simp
  have 3: "lines_read (fst (deleteAll (terminal ''y''))) = [''y'']
     \<and> count_list (fst (deleteAll (terminal ''y''))) DeletedAll = 0
     \<and> snd (deleteAll (terminal ''y'')) = Return (Some ''EOF'')"
    using made [OF terminal_simps(1), of "''y''"]
    unfolding terminal_simps ReadBytes_examples by (elim exE conjE) simp
  have 4: "deleteAll (no_client (''y'' @ [newline])) = ([], Return (Some ''connection refused''))
     \<and> count_list (fst (deleteAll (no_client (''y'' @ [newline])))) DeletedAll = 0"
    using C8_confirmation_gate [of "no_client (''y'' @ [newline])"]
      no_client_simps [of "''y'' @ [newline]"]
    by (elim conjE allE [of _ "''rpc error: code = 14 desc = connection refused''"]) simp
  from 1 2 3 4 show ?thesis by (elim conjE) (intro conjI; assumption)
qed

text \<open>
  Claim C8 as stated fails: when the client cannot be made, the command returns the
  description of that error at once, and no line is read although one is waiting on
  standard input.
\<close>

theorem C8_counterexample:
  "deleteAll (no_client (''y'' @ [newline])) = ([], Return (Some ''connection refused''))
   \<and> lines_read (fst (deleteAll (no_client (''y'' @ [newline])))) = []"
  by (simp add: deleteAll_def no_client_def terminal_def sanitizeErr_def eval_nat_numeral)

text \<open>
  Claim C10. A read that returns no error returns a line that is not empty and ends
  with the newline; the command never panics on the index, whatever standard input
  holds; and when the read returns an error the command returns that error, without
  looking at the bytes.
\<close>

theorem C10_index_in_bounds:
  "(\<forall>line. ReadBytes newline (stdin c) (stdin_error c) = (line, None) \<longrightarrow>
       line \<noteq> [] \<and> last line = newline)
   \<and> snd (deleteAll c) \<noteq> Panic
   \<and> (\<forall>u line e. NewMetricsClientFromAddress c = Inr u
          \<and> ReadBytes newline (stdin c) (stdin_error c) = (line, Some e) \<longrightarrow>
        deleteAll c = ([Printed are_you_sure, ReadLine line], Return (Some e)))"
proof (intro conjI)
  show "\<forall>line. ReadBytes newline (stdin c) (stdin_error c) = (line, None) \<longrightarrow>
       line \<noteq> [] \<and> last line = newline"
    using ReadBytes_delim by blast
  show "snd (deleteAll c) \<noteq> Panic"
  proof (cases "NewMetricsClientFromAddress c")
    case (Inl e)
    then show ?thesis by (simp add: deleteAll_def)
  next
    case (Inr u)
    obtain line r where rb: "ReadBytes newline (stdin c) (stdin_error c) = (line, r)"
      by (cases "ReadBytes newline (stdin c) (stdin_error c)")
    show ?thesis
    proof (cases r)
      case None
      with rb deleteAll_yes [OF Inr, of line] deleteAll_no [OF Inr, of line]
      show ?thesis by (cases "confirmed line") simp_all
    next
      case (Some e)
      with rb deleteAll_read_error [OF Inr, of line e] show ?thesis by simp
    qed
  qed
  show "\<forall>u line e. NewMetricsClientFromAddress c = Inr u
          \<and> ReadBytes newline (stdin c) (stdin_error c) = (line, Some e) \<longrightarrow>
        deleteAll c = ([Printed are_you_sure, ReadLine line], Return (Some e))"
    using deleteAll_read_error by blast
qed

text \<open>The theorem on an empty input and on an empty line.\<close>

theorem C10_index_in_bounds_witness:
  "ReadBytes newline [] ''EOF'' = ([], Some ''EOF'')
   \<and> deleteAll (terminal []) = ([Printed are_you_sure, ReadLine []], Return (Some ''EOF''))
   \<and> ReadBytes newline [newline] ''EOF'' = ([newline], None)
   \<and> snd (deleteAll (terminal [newline])) \<noteq> Panic"
proof -
  have r: "ReadBytes newline (stdin (terminal [])) (stdin_error (terminal [])) = ([], Some ''EOF'')"
    by (simp add: terminal_simps)
  have r': "ReadBytes newline [newline] ''EOF'' = ([newline], None)"
    by simp
  from C10_index_in_bounds [of "terminal []"] terminal_simps(1) [of "[]"] r
  have "deleteAll (terminal []) = ([Printed are_you_sure, ReadLine []], Return (Some ''EOF''))"
    by (elim conjE allE [of _ "()"] allE [of _ "[]"] allE [of _ "''EOF''"]) simp
  with C10_index_in_bounds [of "terminal [newline]"] r' show ?thesis
    by simp
qed

end
